theory Spec2Isabelle
  imports
    Complex_Main
    "HOL-Library.Multiset"
    "HOL-Library.Product_Lexorder"
    "HOL-Library.Char_ord"
    "HOL-Library.List_Lexorder"
begin

section \<open>Audio level analyzer: the classifier\<close>

text \<open>
  The program is \<^verbatim>\<open>src/audio_level_analyzer.py\<close>. Python's \<^verbatim>\<open>str\<close> is modelled by
  \<^typ>\<open>string\<close>; a character beyond ASCII is written as its UTF-8 bytes. What the
  program prints on the terminal is not modelled. The classifier is given on the real
  line, where its thresholds live; floats and the classifier on floats follow.
\<close>

subsection \<open>\<^verbatim>\<open>classify_level\<close>\<close>

text \<open>The dictionary \<^verbatim>\<open>{"label": ..., "color": ..., "emoji": ...}\<close> the function returns.\<close>

record level =
  label :: string
  color :: string
  emoji :: string

definition TRES_BAS :: string where
  "TRES_BAS = ''TR'' @ [CHR 0xC3, CHR 0x88] @ ''S BAS''"

definition BAS :: string where
  "BAS = ''BAS''"

definition MOYEN_MINUS :: string where
  "MOYEN_MINUS = ''MOYEN-''"

definition MOYEN :: string where
  "MOYEN = ''MOYEN''"

definition MOYEN_PLUS :: string where
  "MOYEN_PLUS = ''MOYEN+''"

definition ELEVE :: string where
  "ELEVE = [CHR 0xC3, CHR 0x89] @ ''LEV'' @ [CHR 0xC3, CHR 0x89]"

definition classify_level :: "real \<Rightarrow> level" where
  "classify_level mean_db =
     (if mean_db < - 50 then
        \<lparr>label = TRES_BAS, color = ''#ef4444'', emoji = [CHR 0xF0, CHR 0x9F, CHR 0x94, CHR 0x87]\<rparr>
      else if mean_db < - 42 then
        \<lparr>label = BAS, color = ''#f97316'', emoji = [CHR 0xF0, CHR 0x9F, CHR 0x94, CHR 0x88]\<rparr>
      else if mean_db < - 36 then
        \<lparr>label = MOYEN_MINUS, color = ''#eab308'', emoji = [CHR 0xF0, CHR 0x9F, CHR 0x94, CHR 0x89]\<rparr>
      else if mean_db < - 30 then
        \<lparr>label = MOYEN, color = ''#22c55e'', emoji = [CHR 0xF0, CHR 0x9F, CHR 0x94, CHR 0x8A]\<rparr>
      else if mean_db < - 24 then
        \<lparr>label = MOYEN_PLUS, color = ''#10b981'', emoji = [CHR 0xF0, CHR 0x9F, CHR 0x94, CHR 0x8A]\<rparr>
      else
        \<lparr>label = ELEVE, color = ''#3b82f6'', emoji = [CHR 0xF0, CHR 0x9F, CHR 0x93, CHR 0xA2]\<rparr>)"

text \<open>
  The six labels in ascending order, as \<^verbatim>\<open>generate_html_report\<close> lists them
  (the \<^verbatim>\<open>for level in [...]\<close> loop over the six labels), and the position of
  a label in that list.
\<close>

definition level_order :: "string list" where
  "level_order = [TRES_BAS, BAS, MOYEN_MINUS, MOYEN, MOYEN_PLUS, ELEVE]"

definition band_rank :: "string \<Rightarrow> nat" where
  "band_rank l = length (takeWhile (\<lambda>x. x \<noteq> l) level_order)"

section \<open>Floating-point numbers\<close>

text \<open>
  A Python \<^verbatim>\<open>float\<close> is an IEEE 754 double: a finite value (a rational number that a
  double represents), an infinity, or not-a-number. The sign of zero is not modelled.
  Arithmetic rounds to the nearest double, ties to the even significand, and overflows
  to an infinity.
\<close>

datatype pyfloat = Fin rat | PInf | NInf | NaN

text \<open>The number of binary digits of a positive integer.\<close>

function bit_length :: "int \<Rightarrow> int" where
  "bit_length n = (if n \<le> 0 then 0 else 1 + bit_length (n div 2))"
  by pat_completeness auto
termination
  by (relation "measure nat") auto

text \<open>
  \<open>round_pos p q\<close> is the double nearest to \<open>p / q\<close>, for positive \<open>p\<close> and \<open>q\<close>. The
  exponent \<open>e\<close> is chosen so that \<open>p / (q * 2^e)\<close> lies between \<open>2^52\<close> and \<open>2^53\<close>, but not
  below the exponent of the subnormal numbers; the quotient is rounded to an integer,
  ties to even; a result of \<open>2^1024\<close> or more is the infinity.
\<close>

definition scaled_floor :: "int \<Rightarrow> int \<Rightarrow> int \<Rightarrow> int" where
  "scaled_floor p q e = (if e < 0 then (p * 2 ^ nat (- e)) div q else p div (q * 2 ^ nat e))"

definition round_pos :: "int \<Rightarrow> int \<Rightarrow> pyfloat" where
  "round_pos p q =
     (let e0 = bit_length p - bit_length q - 53;
          e1 = (if scaled_floor p q e0 < 2 ^ 53 then e0 else e0 + 1);
          e = max e1 (- 1074);
          num = (if e < 0 then p * 2 ^ nat (- e) else p);
          den = (if e < 0 then q else q * 2 ^ nat e);
          n = num div den;
          r = num mod den;
          n' = (if den < 2 * r \<or> (2 * r = den \<and> odd n) then n + 1 else n)
      in if 971 < e \<or> (e = 971 \<and> 2 ^ 53 \<le> n') then PInf
         else Fin (of_int n' * 2 powi e))"

fun fneg :: "pyfloat \<Rightarrow> pyfloat" where
  "fneg (Fin x) = Fin (- x)"
| "fneg PInf = NInf"
| "fneg NInf = PInf"
| "fneg NaN = NaN"

fun fabs :: "pyfloat \<Rightarrow> pyfloat" where
  "fabs (Fin x) = Fin \<bar>x\<bar>"
| "fabs PInf = PInf"
| "fabs NInf = PInf"
| "fabs NaN = NaN"

definition round_rat :: "rat \<Rightarrow> pyfloat" where
  "round_rat x =
     (let (p, q) = quotient_of x
      in if p = 0 then Fin 0
         else if 0 < p then round_pos p q
         else fneg (round_pos (- p) q))"

text \<open>Subtraction and addition of two floats.\<close>

fun fsub :: "pyfloat \<Rightarrow> pyfloat \<Rightarrow> pyfloat" where
  "fsub (Fin x) (Fin y) = round_rat (x - y)"
| "fsub NaN b = NaN"
| "fsub a NaN = NaN"
| "fsub PInf PInf = NaN"
| "fsub NInf NInf = NaN"
| "fsub PInf b = PInf"
| "fsub NInf b = NInf"
| "fsub (Fin x) PInf = NInf"
| "fsub (Fin x) NInf = PInf"



text \<open>The exceptions that the program can meet.\<close>

datatype py_error =
  OSError string
| ValueError string
| OverflowError string
| KeyError string

text \<open>
  \<^verbatim>\<open>int(x)\<close> truncates a finite float towards zero and raises on the other floats.
\<close>

definition trunc :: "rat \<Rightarrow> int" where
  "trunc x = (if 0 \<le> x then \<lfloor>x\<rfloor> else \<lceil>x\<rceil>)"

fun to_int :: "pyfloat \<Rightarrow> py_error + int" where
  "to_int (Fin x) = Inr (trunc x)"
| "to_int NaN = Inl (ValueError ''cannot convert float NaN to integer'')"
| "to_int PInf = Inl (OverflowError ''cannot convert float infinity to integer'')"
| "to_int NInf = Inl (OverflowError ''cannot convert float infinity to integer'')"

text \<open>
  \<^const>\<open>classify_level\<close> on a float. The comparisons of a finite float with the integer
  thresholds are exact. Minus infinity is below every threshold, as -51 is; every
  comparison with plus infinity or with not-a-number is false, as with 0.
\<close>

fun classify_float :: "pyfloat \<Rightarrow> level" where
  "classify_float (Fin x) = classify_level (of_rat x)"
| "classify_float NInf = classify_level (- 51)"
| "classify_float PInf = classify_level 0"
| "classify_float NaN = classify_level 0"

section \<open>The measurement of one file\<close>

subsection \<open>Paths and the outside world\<close>

text \<open>
  A \<^verbatim>\<open>pathlib.Path\<close> is modelled by a flag (the path is absolute) and the list of its
  components. \<open>Path_of\<close> is the constructor \<^verbatim>\<open>Path(s)\<close> on a POSIX system: it splits at
  the slashes and drops empty and single-dot components (a string that begins with
  exactly two slashes is read as one that begins with one). A string that names a file is
  modelled by the path it denotes, so \<^verbatim>\<open>str(f)\<close> followed by \<^verbatim>\<open>Path(...)\<close> is the
  identity. Paths are ordered lexicographically, names by their characters' codes.
\<close>

type_synonym path = "bool \<times> string list"

fun split_on :: "char \<Rightarrow> string \<Rightarrow> string list" where
  "split_on c [] = [[]]"
| "split_on c (x # xs) =
     (let r = split_on c xs in if x = c then [] # r else (x # hd r) # tl r)"

definition Path_of :: "string \<Rightarrow> path" where
  "Path_of s =
     (take 1 s = ''/'', filter (\<lambda>p. p \<noteq> [] \<and> p \<noteq> ''.'') (split_on CHR ''/'' s))"

definition name :: "path \<Rightarrow> string" where
  "name p = (if snd p = [] then [] else last (snd p))"

definition parent :: "path \<Rightarrow> path" where
  "parent p = (fst p, butlast (snd p))"

text \<open>\<open>child p n\<close> is the entry named \<open>n\<close> of the directory \<open>p\<close>, as a glob yields it.\<close>

definition child :: "path \<Rightarrow> string \<Rightarrow> path" where
  "child p n = (fst p, snd p @ [n])"

text \<open>\<open>joinpath p s\<close> is \<^verbatim>\<open>p / s\<close>: an absolute \<open>s\<close> replaces \<open>p\<close>.\<close>

definition joinpath :: "path \<Rightarrow> string \<Rightarrow> path" where
  "joinpath p s =
     (if fst (Path_of s) then Path_of s else (fst p, snd p @ snd (Path_of s)))"

text \<open>
  \<^verbatim>\<open>path.suffix\<close> is the part of the name from its last dot on, when that dot is neither
  the first nor the last character of the name; \<^verbatim>\<open>path.stem\<close> is the rest.
\<close>

definition suffix_of :: "path \<Rightarrow> string" where
  "suffix_of p =
     (let n = name p; e = takeWhile (\<lambda>c. c \<noteq> CHR ''.'') (rev n)
      in if CHR ''.'' \<in> set n \<and> e \<noteq> [] \<and> length e + 1 < length n
         then CHR ''.'' # rev e else [])"

definition stem :: "path \<Rightarrow> string" where
  "stem p = take (length (name p) - length (suffix_of p)) (name p)"

text \<open>
  What \<^verbatim>\<open>subprocess.run\<close> does: it returns a completed process (the exit status and the
  captured diagnostic text), raises \<^verbatim>\<open>TimeoutExpired\<close>, or raises another exception,
  of which only \<^verbatim>\<open>str(e)\<close> is observed.
\<close>

datatype run_outcome =
  Completed (returncode: int) (stderr: string)
| TimeoutExpired
| Raised string

text \<open>
  The outside world, read by the program.
  \<^item> \<open>exists\<close>, \<open>is_file\<close>, \<open>is_dir\<close>: the tests of \<^verbatim>\<open>pathlib\<close>. They answer, or raise
    the \<^verbatim>\<open>OSError\<close> of the underlying \<^verbatim>\<open>stat\<close> when it is not one of the errors they
    read as "no" (a path too long, a folder that may not be searched).
  \<^item> \<open>scandir\<close>: the names of the entries of a directory, or the error of the listing
    that a glob lets through.
  \<^item> \<open>special_glob\<close>: what \<^verbatim>\<open>glob\<close> yields for a pattern with a question mark, a
    bracket, a slash or two stars in a row, or the exception it raises on it. Such
    patterns are not interpreted here.
  \<^item> \<open>str_upper\<close>: what \<^verbatim>\<open>str.upper\<close> yields for a text with a character beyond ASCII.
  \<^item> \<open>mkdir\<close> (with \<^verbatim>\<open>exist_ok=True\<close>) and \<open>write_file\<close> (opening a report for writing):
    \<open>None\<close> when they succeed, the exception otherwise.
  \<^item> \<open>volumedetect\<close>: the outcome of the measuring command on a file; \<open>transcode\<close>: the
    outcome of the correcting command on an input, a gain and an output.
  \<^item> \<open>finish_time\<close>: the time at which the pool (of the given width) completes the job
    of a file.
\<close>

record env =
  exists :: "path \<Rightarrow> py_error + bool"
  is_file :: "path \<Rightarrow> py_error + bool"
  is_dir :: "path \<Rightarrow> py_error + bool"
  scandir :: "path \<Rightarrow> py_error + string list"
  special_glob :: "path \<Rightarrow> string \<Rightarrow> py_error + path list"
  str_upper :: "string \<Rightarrow> string"
  mkdir :: "path \<Rightarrow> py_error option"
  write_file :: "path \<Rightarrow> py_error option"
  volumedetect :: "path \<Rightarrow> run_outcome"
  transcode :: "path \<Rightarrow> pyfloat \<Rightarrow> path \<Rightarrow> run_outcome"
  finish_time :: "int \<Rightarrow> path \<Rightarrow> nat"

subsection \<open>The two pattern searches\<close>

text \<open>
  The diagnostic text is ASCII. \<^verbatim>\<open>\s\<close> matches the ASCII characters for which
  \<^verbatim>\<open>str.isspace\<close> holds (code points 9 to 13 and 28 to 32), \<^verbatim>\<open>\d\<close> the ten digits.
\<close>

definition is_space :: "char \<Rightarrow> bool" where
  "is_space c = (let n = (of_char c :: nat) in (9 \<le> n \<and> n \<le> 13) \<or> (28 \<le> n \<and> n \<le> 32))"

definition is_digit :: "char \<Rightarrow> bool" where
  "is_digit c = (let n = (of_char c :: nat) in 48 \<le> n \<and> n \<le> 57)"

definition is_num_char :: "char \<Rightarrow> bool" where
  "is_num_char c = (c = CHR ''-'' \<or> is_digit c \<or> c = CHR ''.'')"

text \<open>
  \<open>match_tail\<close> matches \<^verbatim>\<open>\s*([-\d.]+)\s*dB\<close> at the start of a text and returns the
  group. The three classes \<^verbatim>\<open>\s\<close>, \<^verbatim>\<open>[-\d.]\<close> and the letter \<^verbatim>\<open>d\<close> are disjoint, so the
  greedy match is the only one: backtracking a repetition would hand the next item a
  character it cannot match. \<open>re_search\<close> is \<^verbatim>\<open>re.search(key + r"\s*([-\d.]+)\s*dB", s)\<close>
  followed by \<^verbatim>\<open>.group(1)\<close>: the match at the leftmost position that has one.
\<close>

definition match_tail :: "string \<Rightarrow> string option" where
  "match_tail s =
     (let s1 = dropWhile is_space s;
          cap = takeWhile is_num_char s1;
          s3 = dropWhile is_space (dropWhile is_num_char s1)
      in if cap \<noteq> [] \<and> take 2 s3 = ''dB'' then Some cap else None)"

definition match_at :: "string \<Rightarrow> string \<Rightarrow> string option" where
  "match_at key s =
     (if take (length key) s = key then match_tail (drop (length key) s) else None)"

fun re_search :: "string \<Rightarrow> string \<Rightarrow> string option" where
  "re_search key [] = match_at key []"
| "re_search key (c # cs) =
     (case match_at key (c # cs) of Some cap \<Rightarrow> Some cap | None \<Rightarrow> re_search key cs)"

subsection \<open>\<^verbatim>\<open>float\<close> on a captured group\<close>

text \<open>
  \<^verbatim>\<open>float(s)\<close> for a string of the characters \<^verbatim>\<open>-\<close>, \<^verbatim>\<open>.\<close> and digits (all a group can
  hold): an optional minus sign, then digits with at most one dot and at least one digit.
  The decimal number is rounded to the nearest double. \<open>None\<close> is the \<^verbatim>\<open>ValueError\<close>,
  whose text is \<open>float_error\<close>.
\<close>

definition digit_val :: "char \<Rightarrow> int" where
  "digit_val c = of_char c - 48"

definition dec :: "string \<Rightarrow> int" where
  "dec ds = foldl (\<lambda>a c. 10 * a + digit_val c) 0 ds"

definition unsigned_decimal :: "string \<Rightarrow> rat option" where
  "unsigned_decimal u =
     (let ip = takeWhile is_digit u; r = dropWhile is_digit u
      in case r of
           [] \<Rightarrow> if ip = [] then None else Some (of_int (dec ip))
         | c # fp \<Rightarrow>
             if c = CHR ''.'' \<and> list_all is_digit fp \<and> (ip \<noteq> [] \<or> fp \<noteq> [])
             then Some (of_int (dec ip) + of_int (dec fp) / 10 ^ length fp)
             else None)"

definition float_of_group :: "string \<Rightarrow> pyfloat option" where
  "float_of_group s =
     (case s of
        [] \<Rightarrow> None
      | c # u \<Rightarrow> if c = CHR ''-'' then map_option (\<lambda>x. fneg (round_rat x)) (unsigned_decimal u)
                 else map_option round_rat (unsigned_decimal s))"

definition float_error :: "string \<Rightarrow> string" where
  "float_error s = ''could not convert string to float: '' @ [CHR 0x27] @ s @ [CHR 0x27]"

subsection \<open>\<^verbatim>\<open>analyze_audio_level\<close>\<close>

text \<open>
  The dictionary of a measured file, and the three shapes of a result: a measurement, a
  dictionary with \<^verbatim>\<open>fichier\<close> and \<^verbatim>\<open>error\<close>, and the dictionary with \<^verbatim>\<open>error\<close> alone
  that \<^verbatim>\<open>analyze_folder\<close> returns for a folder it cannot analyse.
\<close>

record measurement =
  fichier :: string
  chemin :: path
  niveau_moyen_db :: pyfloat
  niveau_max_db :: pyfloat
  classification :: string
  m_color :: string
  m_emoji :: string

datatype result =
  Measured measurement
| FileError string string
| BatchError string

definition NON_TROUVE :: string where
  "NON_TROUVE = ''Fichier non trouv'' @ [CHR 0xC3, CHR 0xA9]"

definition PAS_DE_PISTE :: string where
  "PAS_DE_PISTE = ''Pas de piste audio''"

text \<open>
  The test \<^verbatim>\<open>path.exists()\<close> comes before the \<^verbatim>\<open>try\<close> block: an exception it raises
  leaves the function (\<open>Inl\<close>). Everything after it is inside the block, whose two
  handlers turn every exception into a result.
\<close>

definition analyze_audio_level :: "env \<Rightarrow> path \<Rightarrow> py_error + result" where
  "analyze_audio_level e file_path =
     (case exists e file_path of
        Inl err \<Rightarrow> Inl err
      | Inr False \<Rightarrow> Inr (FileError (name file_path) NON_TROUVE)
      | Inr True \<Rightarrow>
         (case volumedetect e file_path of
            TimeoutExpired \<Rightarrow> Inr (FileError (name file_path) ''Timeout'')
          | Raised msg \<Rightarrow> Inr (FileError (name file_path) msg)
          | Completed rc err \<Rightarrow>
              (case (re_search ''mean_volume:'' err, re_search ''max_volume:'' err) of
                 (Some mean_group, Some max_group) \<Rightarrow>
                   (case float_of_group mean_group of
                      None \<Rightarrow> Inr (FileError (name file_path) (float_error mean_group))
                    | Some mean_db \<Rightarrow>
                       (case float_of_group max_group of
                          None \<Rightarrow> Inr (FileError (name file_path) (float_error max_group))
                        | Some max_db \<Rightarrow>
                            (let lvl = classify_float mean_db
                             in Inr (Measured \<lparr>fichier = name file_path, chemin = file_path,
                                  niveau_moyen_db = mean_db, niveau_max_db = max_db,
                                  classification = label lvl, m_color = color lvl,
                                  m_emoji = emoji lvl\<rparr>))))
               | _ \<Rightarrow> Inr (FileError (name file_path) PAS_DE_PISTE))))"

section \<open>The batch: \<^verbatim>\<open>analyze_folder\<close>\<close>

subsection \<open>Discovery\<close>

text \<open>
  \<^verbatim>\<open>str.upper\<close>: on ASCII text the letters a to z become A to Z; for any other text it is
  what the outside world says.
\<close>

definition to_upper :: "char \<Rightarrow> char" where
  "to_upper c =
     (let n = (of_char c :: nat) in if 97 \<le> n \<and> n \<le> 122 then char_of (n - 32) else c)"

definition ascii :: "string \<Rightarrow> bool" where
  "ascii s = list_all (\<lambda>c. (of_char c :: nat) < 128) s"

definition upper :: "env \<Rightarrow> string \<Rightarrow> string" where
  "upper e s = (if ascii s then map to_upper s else str_upper e s)"

definition ends_with :: "string \<Rightarrow> string \<Rightarrow> bool" where
  "ends_with ext n = (length ext \<le> length n \<and> drop (length n - length ext) n = ext)"

text \<open>
  The match of a name against a pattern of one component that holds stars and ordinary
  characters, as \<^verbatim>\<open>fnmatch\<close> does it on a POSIX system (case-sensitively): a star matches
  any run of characters, every other character itself.
\<close>

fun wild_match :: "string \<Rightarrow> string \<Rightarrow> bool" where
  "wild_match [] s = (s = [])"
| "wild_match (p # ps) [] = (p = CHR ''*'' \<and> wild_match ps [])"
| "wild_match (p # ps) (c # cs) =
     (if p = CHR ''*'' then wild_match ps (c # cs) \<or> wild_match (p # ps) cs
      else p = c \<and> wild_match ps cs)"

fun double_star :: "string \<Rightarrow> bool" where
  "double_star (a # b # s) = ((a = CHR ''*'' \<and> b = CHR ''*'') \<or> double_star (b # s))"
| "double_star s = False"

text \<open>
  \<^verbatim>\<open>folder.glob(pattern)\<close>. A pattern with a question mark, a bracket, a slash or two
  stars in a row is answered by the outside world. Any other pattern has one component:
  the glob yields the entries of the folder whose names match it. A listing that is
  refused for lack of permission is read by the glob as an empty one; \<open>scandir\<close> raises
  only what the glob lets through.
\<close>

definition special :: "string \<Rightarrow> bool" where
  "special pat =
     (CHR ''?'' \<in> set pat \<or> CHR ''['' \<in> set pat \<or> CHR ''/'' \<in> set pat \<or> double_star pat)"

definition glob :: "env \<Rightarrow> path \<Rightarrow> string \<Rightarrow> py_error + path list" where
  "glob e folder pat =
     (if special pat then special_glob e folder pat
      else case scandir e folder of
             Inl err \<Rightarrow> Inl err
           | Inr names \<Rightarrow> Inr (map (child folder) (filter (wild_match pat) names)))"

text \<open>
  An extension is plain when it is ASCII text with none of the characters that a pattern
  reads specially: star, question mark, opening bracket, slash.
\<close>

definition plain :: "string \<Rightarrow> bool" where
  "plain ext = (ascii ext \<and> list_all (\<lambda>c. c \<notin> set ''*?[/'') ext)"

definition default_extensions :: "string list" where
  "default_extensions =
     [''.mp4'', ''.mkv'', ''.avi'', ''.mov'', ''.webm'', ''.mp3'', ''.wav'', ''.m4a'']"

text \<open>
  The loop over the extensions, which extends the list by two globs per extension and
  stops at the first exception; then \<^verbatim>\<open>sorted(set(files))\<close>.
\<close>

fun glob_all :: "env \<Rightarrow> path \<Rightarrow> string list \<Rightarrow> py_error + path list" where
  "glob_all e folder [] = Inr []"
| "glob_all e folder (ext # exts) =
     (case glob e folder (CHR ''*'' # ext) of
        Inl err \<Rightarrow> Inl err
      | Inr lower_hits \<Rightarrow>
         (case glob e folder (CHR ''*'' # upper e ext) of
            Inl err \<Rightarrow> Inl err
          | Inr upper_hits \<Rightarrow>
             (case glob_all e folder exts of
                Inl err \<Rightarrow> Inl err
              | Inr rest \<Rightarrow> Inr (lower_hits @ upper_hits @ rest))))"

definition discover :: "env \<Rightarrow> path \<Rightarrow> string list \<Rightarrow> py_error + path list" where
  "discover e folder extensions =
     (case glob_all e folder extensions of
        Inl err \<Rightarrow> Inl err
      | Inr files \<Rightarrow> Inr (sort (remdups files)))"

subsection \<open>The pool and the final sort\<close>

text \<open>\<^verbatim>\<open>x.get('fichier', '')\<close>, the key of the final sort.\<close>

fun fichier_key :: "result \<Rightarrow> string" where
  "fichier_key (Measured m) = fichier m"
| "fichier_key (FileError f msg) = f"
| "fichier_key (BatchError msg) = []"

text \<open>
  The loop \<^verbatim>\<open>for future in as_completed(futures)\<close>: \<^verbatim>\<open>future.result()\<close> returns the
  result of a job or raises the exception that left the job; the first such exception
  ends the loop and leaves \<^verbatim>\<open>analyze_folder\<close>.
\<close>

fun collect :: "(py_error + 'a) list \<Rightarrow> py_error + 'a list" where
  "collect [] = Inr []"
| "collect (Inl err # js) = Inl err"
| "collect (Inr r # js) =
     (case collect js of Inl err \<Rightarrow> Inl err | Inr rs \<Rightarrow> Inr (r # rs))"

text \<open>
  \<^verbatim>\<open>ThreadPoolExecutor(max_workers=workers)\<close> raises \<^verbatim>\<open>ValueError\<close> for a width below 1.
  \<^verbatim>\<open>as_completed\<close> yields every job once, in the order of the jobs' completion times:
  the files sorted by \<open>finish_time\<close>. Every order of completion is the order of some
  \<open>finish_time\<close>. \<^verbatim>\<open>list.sort\<close> is stable, as \<^const>\<open>sort_key\<close> is.
\<close>

definition analyze_folder ::
    "env \<Rightarrow> string \<Rightarrow> string list option \<Rightarrow> int \<Rightarrow> py_error + result list" where
  "analyze_folder e folder_path extensions workers =
     (let exts = (case extensions of None \<Rightarrow> default_extensions | Some xs \<Rightarrow> xs);
          folder = Path_of folder_path
      in case is_dir e folder of
           Inl err \<Rightarrow> Inl err
         | Inr False \<Rightarrow>
             Inr [BatchError (''Dossier non trouv'' @ [CHR 0xC3, CHR 0xA9] @ '': '' @ folder_path)]
         | Inr True \<Rightarrow>
            (case discover e folder exts of
               Inl err \<Rightarrow> Inl err
             | Inr files \<Rightarrow>
                 if files = [] then
                   Inr [BatchError (''Aucun fichier trouv'' @ [CHR 0xC3, CHR 0xA9] @ '' dans '' @
                                    folder_path)]
                 else if workers \<le> 0 then
                   Inl (ValueError ''max_workers must be greater than 0'')
                 else
                   (case collect (map (analyze_audio_level e)
                                      (sort_key (finish_time e workers) files)) of
                      Inl err \<Rightarrow> Inl err
                    | Inr results \<Rightarrow> Inr (sort_key fichier_key results))))"

section \<open>The correction pass\<close>

text \<open>
  \<^verbatim>\<open>apply_audio_correction\<close>: true exactly when the command completes with exit status 0;
  every exception gives false.
\<close>

definition apply_audio_correction :: "env \<Rightarrow> path \<Rightarrow> pyfloat \<Rightarrow> path \<Rightarrow> bool" where
  "apply_audio_correction e file_path gain_db output_path =
     (case transcode e file_path gain_db output_path of
        Completed rc err \<Rightarrow> rc = 0
      | TimeoutExpired \<Rightarrow> False
      | Raised msg \<Rightarrow> False)"

text \<open>\<^verbatim>\<open>[r for r in results if 'error' not in r]\<close>\<close>

fun valid_results :: "result list \<Rightarrow> measurement list" where
  "valid_results [] = []"
| "valid_results (Measured m # rs) = m # valid_results rs"
| "valid_results (FileError f msg # rs) = valid_results rs"
| "valid_results (BatchError msg # rs) = valid_results rs"

text \<open>\<^verbatim>\<open>str\<close> of an integer is its decimal notation.\<close>

function str_nat :: "nat \<Rightarrow> string" where
  "str_nat n = (if n < 10 then [char_of (48 + n)] else str_nat (n div 10) @ [char_of (48 + n mod 10)])"
  by pat_completeness auto
termination
  by (relation "measure id") auto

definition str_int :: "int \<Rightarrow> string" where
  "str_int i = (if i < 0 then CHR ''-'' # str_nat (nat (- i)) else str_nat (nat i))"

text \<open>
  The name of the output directory: \<^verbatim>\<open>f"normalized_{int(abs(value))}dB"\<close> in the mode
  \<^verbatim>\<open>normalize\<close>, \<^verbatim>\<open>f"boosted_+{int(value)}dB"\<close> otherwise. \<^verbatim>\<open>int\<close> raises on a value that is
  not finite.
\<close>

definition output_dir_name :: "string \<Rightarrow> pyfloat \<Rightarrow> py_error + string" where
  "output_dir_name mode val =
     (if mode = ''normalize'' then
        (case to_int (fabs val) of
           Inl err \<Rightarrow> Inl err
         | Inr i \<Rightarrow> Inr (''normalized_'' @ str_int i @ ''dB''))
      else
        (case to_int val of
           Inl err \<Rightarrow> Inl err
         | Inr i \<Rightarrow> Inr (''boosted_+'' @ str_int i @ ''dB'')))"

text \<open>
  One call of \<^verbatim>\<open>apply_audio_correction\<close> with its arguments, and what the pass reports:
  the directory it created, the calls it made in order, and the two counters.
\<close>

record invocation =
  inv_input :: path
  inv_gain :: pyfloat
  inv_output :: path

record report =
  output_dir :: path
  invocations :: "invocation list"
  success :: nat
  errors :: nat

text \<open>The body of the \<^verbatim>\<open>for\<close> loop, on the report built so far.\<close>

fun correction_loop :: "env \<Rightarrow> string \<Rightarrow> pyfloat \<Rightarrow> measurement list \<Rightarrow> report \<Rightarrow> report" where
  "correction_loop e mode val [] rep = rep"
| "correction_loop e mode val (r # rs) rep =
     (let gain = (if mode = ''normalize'' then fsub val (niveau_moyen_db r) else val);
          input_path = chemin r;
          output_path = joinpath (output_dir rep) (fichier r);
          inv = \<lparr>inv_input = input_path, inv_gain = gain, inv_output = output_path\<rparr>
      in if apply_audio_correction e input_path gain output_path
         then correction_loop e mode val rs
                (rep\<lparr>invocations := invocations rep @ [inv], success := success rep + 1\<rparr>)
         else correction_loop e mode val rs
                (rep\<lparr>invocations := invocations rep @ [inv], errors := errors rep + 1\<rparr>))"

text \<open>
  \<^verbatim>\<open>process_corrections\<close>. \<open>Inr None\<close> is the early return when no result is free of an
  error: nothing is created and nothing is called. \<open>Inl\<close> is an exception that leaves the
  function: the one of \<^verbatim>\<open>int\<close> in the name of the output directory, or the one of
  \<^verbatim>\<open>mkdir\<close>. Both come before the loop, so no call has been made then.
\<close>

definition process_corrections ::
    "env \<Rightarrow> result list \<Rightarrow> path \<Rightarrow> string \<Rightarrow> pyfloat \<Rightarrow> py_error + report option" where
  "process_corrections e results folder mode val =
     (let valid = valid_results results
      in if valid = [] then Inr None
         else
           (case output_dir_name mode val of
              Inl err \<Rightarrow> Inl err
            | Inr dir_name \<Rightarrow>
               (let dir = joinpath folder dir_name
                in case mkdir e dir of
                     Some err \<Rightarrow> Inl err
                   | None \<Rightarrow>
                       Inr (Some (correction_loop e mode val valid
                         \<lparr>output_dir = dir, invocations = [], success = 0, errors = 0\<rparr>)))))"

section \<open>The command line: \<^verbatim>\<open>main\<close>\<close>

text \<open>
  What a run does, in order: the analysis of the file or of the folder, the reports it
  writes, the corrections; and how it ends: by returning, by \<^verbatim>\<open>sys.exit\<close>, or by an
  exception nobody catches.
\<close>

datatype event =
  Analyzed_file path result
| Analyzed_folder string "result list"
| Html_report path
| Csv_export path "measurement list"
| Json_export path "measurement list"
| Corrected_file invocation bool
| Corrections string pyfloat "report option"

datatype ending = Returned | SysExit int | Uncaught py_error

text \<open>
  The parsing of \<^verbatim>\<open>--normalize\<close> and of \<^verbatim>\<open>--boost\<close>. \<open>float_of\<close> is \<^verbatim>\<open>float\<close> on a token of
  the command line, \<open>None\<close> its \<^verbatim>\<open>ValueError\<close>. \<open>Inl ()\<close> is the \<^verbatim>\<open>sys.exit(1)\<close> of the
  handler. \<^verbatim>\<open>sys.argv.index\<close> is the position of the first occurrence.
\<close>

definition index_of :: "string \<Rightarrow> string list \<Rightarrow> nat" where
  "index_of flag argv = length (takeWhile (\<lambda>a. a \<noteq> flag) argv)"

definition parse_flag ::
    "(string \<Rightarrow> pyfloat option) \<Rightarrow> string \<Rightarrow> string list \<Rightarrow> unit + pyfloat option" where
  "parse_flag float_of flag argv =
     (if flag \<in> set argv then
        (let idx = index_of flag argv
         in if idx + 1 < length argv then
              (case float_of (argv ! (idx + 1)) of
                 None \<Rightarrow> Inl ()
               | Some v \<Rightarrow> Inr (Some v))
            else Inr None)
      else Inr None)"

text \<open>
  \<^verbatim>\<open>generate_html_report\<close> reads \<^verbatim>\<open>e["fichier"]\<close> of every result with an error, before
  it writes the file: a result without that key raises \<^verbatim>\<open>KeyError\<close>.
\<close>

fun html_report_raises :: "result list \<Rightarrow> bool" where
  "html_report_raises [] = False"
| "html_report_raises (BatchError msg # rs) = True"
| "html_report_raises (r # rs) = html_report_raises rs"

text \<open>
  The three reports of a folder, as far as they get: the reports written, and the
  exception that stopped them, if any.
\<close>

definition write_reports ::
    "env \<Rightarrow> string list \<Rightarrow> path \<Rightarrow> result list \<Rightarrow> event list \<times> py_error option" where
  "write_reports e argv p results =
     (let html_path = joinpath p ''audio_report.html'';
          csv_path = joinpath p ''audio_levels.csv'';
          json_path = joinpath p ''audio_levels.json'';
          html = (''--no-html'' \<notin> set argv);
          csv = (''--csv'' \<in> set argv);
          json = (''--json'' \<in> set argv)
      in case (if \<not> html then None
               else if html_report_raises results then Some (KeyError ''fichier'')
               else write_file e html_path) of
           Some err \<Rightarrow> ([], Some err)
         | None \<Rightarrow>
            (let ev1 = (if html then [Html_report html_path] else [])
             in case (if csv then write_file e csv_path else None) of
                  Some err \<Rightarrow> (ev1, Some err)
                | None \<Rightarrow>
                   (let ev2 = ev1 @ (if csv then [Csv_export csv_path (valid_results results)]
                                     else [])
                    in case (if json then write_file e json_path else None) of
                         Some err \<Rightarrow> (ev2, Some err)
                       | None \<Rightarrow>
                           (ev2 @ (if json
                                   then [Json_export json_path (valid_results results)]
                                   else []),
                            None))))"

text \<open>The correction of a single measured file.\<close>

definition correct_single ::
    "env \<Rightarrow> path \<Rightarrow> measurement \<Rightarrow> pyfloat option \<Rightarrow> pyfloat option \<Rightarrow> event list" where
  "correct_single e p m normalize_target boost_value =
     (case normalize_target of
        Some t \<Rightarrow>
          (let gain = fsub t (niveau_moyen_db m);
               output_path = joinpath (parent p) (stem p @ ''_normalized'' @ suffix_of p)
           in [Corrected_file \<lparr>inv_input = p, inv_gain = gain, inv_output = output_path\<rparr>
                 (apply_audio_correction e p gain output_path)])
      | None \<Rightarrow>
          (case boost_value of
             Some b \<Rightarrow>
               (let output_path = joinpath (parent p) (stem p @ ''_boosted'' @ suffix_of p)
                in [Corrected_file \<lparr>inv_input = p, inv_gain = b, inv_output = output_path\<rparr>
                      (apply_audio_correction e p b output_path)])
           | None \<Rightarrow> []))"

text \<open>The correction of a folder, after the reports.\<close>

definition run_corrections ::
    "env \<Rightarrow> result list \<Rightarrow> path \<Rightarrow> string \<Rightarrow> pyfloat \<Rightarrow> event list \<times> ending" where
  "run_corrections e results p mode val =
     (case process_corrections e results p mode val of
        Inl err \<Rightarrow> ([], Uncaught err)
      | Inr rep \<Rightarrow> ([Corrections mode val rep], Returned))"

definition correct_folder ::
    "env \<Rightarrow> result list \<Rightarrow> path \<Rightarrow> pyfloat option \<Rightarrow> pyfloat option \<Rightarrow> event list \<times> ending"
    where
  "correct_folder e results p normalize_target boost_value =
     (case normalize_target of
        Some t \<Rightarrow> run_corrections e results p ''normalize'' t
      | None \<Rightarrow>
          (case boost_value of
             Some b \<Rightarrow> run_corrections e results p ''boost'' b
           | None \<Rightarrow> ([], Returned)))"

text \<open>\<^verbatim>\<open>main\<close> after the options are parsed.\<close>

definition main_body ::
    "env \<Rightarrow> string list \<Rightarrow> string \<Rightarrow> pyfloat option \<Rightarrow> pyfloat option \<Rightarrow> event list \<times> ending"
    where
  "main_body e argv target normalize_target boost_value =
     (let p = Path_of target
      in case is_file e p of
           Inl err \<Rightarrow> ([], Uncaught err)
         | Inr True \<Rightarrow>
            (case analyze_audio_level e p of
               Inl err \<Rightarrow> ([], Uncaught err)
             | Inr result \<Rightarrow>
                 (Analyzed_file p result #
                    (case result of
                       Measured m \<Rightarrow> correct_single e p m normalize_target boost_value
                     | FileError f msg \<Rightarrow> []
                     | BatchError msg \<Rightarrow> []),
                  Returned))
         | Inr False \<Rightarrow>
            (case is_dir e p of
               Inl err \<Rightarrow> ([], Uncaught err)
             | Inr False \<Rightarrow> ([], SysExit 1)
             | Inr True \<Rightarrow>
                (case analyze_folder e target None 4 of
                   Inl err \<Rightarrow> ([], Uncaught err)
                 | Inr results \<Rightarrow>
                    (case write_reports e argv p results of
                       (evs, Some err) \<Rightarrow> (Analyzed_folder target results # evs, Uncaught err)
                     | (evs, None) \<Rightarrow>
                        (case correct_folder e results p normalize_target boost_value of
                           (cevs, how) \<Rightarrow>
                             (Analyzed_folder target results # evs @ cevs, how))))))"

definition main ::
    "(string \<Rightarrow> pyfloat option) \<Rightarrow> env \<Rightarrow> string list \<Rightarrow> event list \<times> ending" where
  "main float_of e argv =
     (if length argv < 2 then ([], SysExit 1)
      else
        (case parse_flag float_of ''--normalize'' argv of
           Inl u \<Rightarrow> ([], SysExit 1)
         | Inr normalize_target \<Rightarrow>
             (case parse_flag float_of ''--boost'' argv of
                Inl u \<Rightarrow> ([], SysExit 1)
              | Inr boost_value \<Rightarrow>
                  main_body e argv (argv ! 1) normalize_target boost_value)))"

section \<open>Sample worlds\<close>

text \<open>
  A folder \<^verbatim>\<open>videos\<close> with the given entries, each an existing file on which the measuring
  command has the given outcome. Every test of the file system answers, every directory
  and report can be written, the correcting command succeeds, and a job completes the
  earlier the longer its file's name is.
\<close>

definition videos :: path where
  "videos = (False, [''videos''])"

definition sample_env :: "string list \<Rightarrow> run_outcome \<Rightarrow> env" where
  "sample_env entries outcome =
     \<lparr>exists = (\<lambda>p. Inr True),
      is_file = (\<lambda>p. Inr (p \<noteq> videos)),
      is_dir = (\<lambda>p. Inr (p = videos)),
      scandir = (\<lambda>p. Inr (if p = videos then entries else [])),
      special_glob = (\<lambda>p pat. Inr []),
      str_upper = (\<lambda>s. s),
      mkdir = (\<lambda>p. None),
      write_file = (\<lambda>p. None),
      volumedetect = (\<lambda>p. outcome),
      transcode = (\<lambda>p g q. Completed 0 []),
      finish_time = (\<lambda>w p. 100 - length (name p))\<rparr>"

definition two_markers :: string where
  "two_markers = ''mean_volume: -30.0 dB'' @ [CHR 0x0A] @ ''max_volume: -5.0 dB''"

definition one_marker :: string where
  "one_marker = ''max_volume: -5.0 dB''"

text \<open>The measurement that the text \<open>two_markers\<close> yields for a file of the folder.\<close>

definition measured_30 :: "string \<Rightarrow> measurement" where
  "measured_30 n =
     \<lparr>fichier = n, chemin = child videos n,
      niveau_moyen_db = Fin (- 30), niveau_max_db = Fin (- 5),
      classification = MOYEN_PLUS, m_color = ''#10b981'',
      m_emoji = [CHR 0xF0, CHR 0x9F, CHR 0x94, CHR 0x8A]\<rparr>"

text \<open>
  The same folder when the existence test of the file \<^verbatim>\<open>b.mp4\<close> is refused, as in a folder
  that may be listed but not searched.
\<close>

definition permission_denied :: py_error where
  "permission_denied = OSError ''[Errno 13] Permission denied''"


text \<open>
  Three results, two of them measurements, and a world whose correcting command fails on a
  negative gain.
\<close>

fun negative :: "pyfloat \<Rightarrow> bool" where
  "negative (Fin x) = (x < 0)"
| "negative NInf = True"
| "negative f = False"

definition sample_measurement :: "string \<Rightarrow> pyfloat \<Rightarrow> measurement" where
  "sample_measurement n mean_db =
     \<lparr>fichier = n, chemin = child videos n, niveau_moyen_db = mean_db,
      niveau_max_db = Fin 0,
      classification = label (classify_float mean_db), m_color = color (classify_float mean_db),
      m_emoji = emoji (classify_float mean_db)\<rparr>"

definition sample_results :: "result list" where
  "sample_results =
     [Measured (sample_measurement ''a.mp4'' (Fin (- 30))), FileError ''b.mp4'' ''Timeout'',
      Measured (sample_measurement ''c.mp4'' (Fin (- 20)))]"

definition picky_env :: env where
  "picky_env =
     (sample_env [] TimeoutExpired)
       \<lparr>transcode := (\<lambda>p g q. if negative g then Completed 1 [] else Completed 0 [])\<rparr>"

section \<open>Properties of the classifier\<close>

lemmas label_defs = TRES_BAS_def BAS_def MOYEN_MINUS_def MOYEN_def MOYEN_PLUS_def ELEVE_def

lemma band_rank_classify:
  "band_rank (label (classify_level m)) =
     (if m < - 50 then 0 else if m < - 42 then 1 else if m < - 36 then 2
      else if m < - 30 then 3 else if m < - 24 then 4 else 5)"
  by (simp add: classify_level_def band_rank_def level_order_def label_defs)

text \<open>
  Claim C1. For every real mean level, \<^const>\<open>classify_level\<close> returns exactly one of the
  six labels, chosen by strict less-than against -50, -42, -36, -30, -24: each label is
  returned exactly on its half-open interval, the six labels are pairwise different, and a
  value on a boundary belongs to the higher band. In particular -50.0 is BAS, -50.1 is the
  lowest band and -24.0 is the highest band.
\<close>

theorem classify_level_bands:
  "(label (classify_level m) = TRES_BAS) = (m < - 50)
   \<and> (label (classify_level m) = BAS) = (- 50 \<le> m \<and> m < - 42)
   \<and> (label (classify_level m) = MOYEN_MINUS) = (- 42 \<le> m \<and> m < - 36)
   \<and> (label (classify_level m) = MOYEN) = (- 36 \<le> m \<and> m < - 30)
   \<and> (label (classify_level m) = MOYEN_PLUS) = (- 30 \<le> m \<and> m < - 24)
   \<and> (label (classify_level m) = ELEVE) = (- 24 \<le> m)
   \<and> distinct level_order
   \<and> label (classify_level m) \<in> set level_order
   \<and> label (classify_level (- 50)) = BAS
   \<and> label (classify_level (- 50.1)) = TRES_BAS
   \<and> label (classify_level (- 24)) = ELEVE"
  by (simp add: classify_level_def level_order_def label_defs)

text \<open>
  Claim C2. Band assignment is monotonic: for \<open>a \<le> b\<close> the band of \<open>a\<close> is at most the
  band of \<open>b\<close> in the order very low, low, low-mid, mid, mid-high, high (the position of
  the label in \<^const>\<open>level_order\<close>).
\<close>

theorem classify_level_monotone:
  "a \<le> b \<Longrightarrow> band_rank (label (classify_level a)) \<le> band_rank (label (classify_level b))"
  unfolding band_rank_classify by (simp split: if_splits)

theorem classify_level_monotone_witness:
  "(- 55 :: real) \<le> - 20 \<and> band_rank (label (classify_level (- 55))) = 0
   \<and> band_rank (label (classify_level (- 20))) = 5
   \<and> band_rank (label (classify_level (- 55))) \<le> band_rank (label (classify_level (- 20)))"
  using classify_level_monotone [of "- 55" "- 20"] by (simp add: band_rank_classify)

section \<open>Properties of the measurement of one file\<close>

lemma float_error_not_piste: "float_error g \<noteq> PAS_DE_PISTE"
  by (simp add: float_error_def PAS_DE_PISTE_def)

text \<open>
  Claim C5, as stated, fails: on the text below both patterns match (the groups are \<open>-\<close>
  and \<open>-1.0\<close>), yet the result is neither the failure "Pas de piste audio" nor a pair of
  numbers: \<^verbatim>\<open>float("-")\<close> raises, and the handler returns the failure that carries the
  message of the conversion.
\<close>

theorem malformed_group_counterexample:
  "re_search ''mean_volume:'' ''mean_volume: - dB max_volume: -1.0 dB'' = Some ''-''
   \<and> re_search ''max_volume:'' ''mean_volume: - dB max_volume: -1.0 dB'' = Some ''-1.0''
   \<and> float_of_group ''-'' = None
   \<and> analyze_audio_level
         (sample_env [] (Completed 0 ''mean_volume: - dB max_volume: -1.0 dB''))
         (child videos ''a.mp4'') = Inr (FileError ''a.mp4'' (float_error ''-''))"
  by code_simp

text \<open>
  Claim C5, amended. For an existing file whose measuring command completes with the
  diagnostic text \<open>txt\<close>: the result is the failure "Pas de piste audio" if and only if at
  least one of the two searches finds no match. When both match, the two groups are
  converted in turn: if both convert, the result is the measurement with the two numbers
  (and the band of the mean); otherwise it is the failure carrying the conversion message
  of the first group that does not convert.
\<close>

theorem extract_outcomes:
  assumes "exists e p = Inr True" and "volumedetect e p = Completed rc txt"
  shows "((analyze_audio_level e p = Inr (FileError (name p) PAS_DE_PISTE)) =
            (re_search ''mean_volume:'' txt = None \<or> re_search ''max_volume:'' txt = None))
       \<and> (\<forall>a b. re_search ''mean_volume:'' txt = Some a \<and> re_search ''max_volume:'' txt = Some b \<longrightarrow>
            (case float_of_group a of
               None \<Rightarrow> analyze_audio_level e p = Inr (FileError (name p) (float_error a))
             | Some mean_db \<Rightarrow>
                (case float_of_group b of
                   None \<Rightarrow> analyze_audio_level e p = Inr (FileError (name p) (float_error b))
                 | Some max_db \<Rightarrow>
                     analyze_audio_level e p =
                       Inr (Measured \<lparr>fichier = name p, chemin = p,
                         niveau_moyen_db = mean_db, niveau_max_db = max_db,
                         classification = label (classify_float mean_db),
                         m_color = color (classify_float mean_db),
                         m_emoji = emoji (classify_float mean_db)\<rparr>))))"
  using assms
  by (auto simp: analyze_audio_level_def Let_def float_error_not_piste split: option.splits)

lemma two_markers_groups:
  "re_search ''mean_volume:'' two_markers = Some ''-30.0''"
  "re_search ''max_volume:'' two_markers = Some ''-5.0''"
  "float_of_group ''-30.0'' = Some (Fin (- 30))"
  "float_of_group ''-5.0'' = Some (Fin (- 5))"
  by code_simp+

lemma one_marker_groups:
  "re_search ''mean_volume:'' one_marker = None"
  by code_simp

lemma name_child [simp]: "name (child folder n) = n"
  by (simp add: name_def child_def)

lemma sample_measured:
  "analyze_audio_level (sample_env entries (Completed rc two_markers)) (child videos n) =
     Inr (Measured (measured_30 n))"
  by (simp add: analyze_audio_level_def sample_env_def two_markers_groups measured_30_def
      classify_level_def)

theorem extract_outcomes_witness:
  "analyze_audio_level (sample_env [] (Completed 0 two_markers)) (child videos ''a.mp4'') =
     Inr (Measured (measured_30 ''a.mp4''))
   \<and> analyze_audio_level (sample_env [] (Completed 0 one_marker))
         (child videos ''a.mp4'') = Inr (FileError ''a.mp4'' PAS_DE_PISTE)"
proof -
  let ?p = "child videos ''a.mp4''"
  have ex: "exists (sample_env [] out) ?p = Inr True" for out
    by (simp add: sample_env_def)
  have vd: "volumedetect (sample_env [] (Completed 0 s)) ?p = Completed 0 s" for s
    by (simp add: sample_env_def)
  from extract_outcomes [OF ex vd, of two_markers] extract_outcomes [OF ex vd, of one_marker]
  show ?thesis
    by (simp add: two_markers_groups one_marker_groups classify_level_def measured_30_def)
qed




section \<open>Properties of the batch\<close>

lemma child_inj [simp]: "(child folder n = child folder n') = (n = n')"
  by (simp add: child_def)

lemma ends_with_iff: "ends_with ext n = (\<exists>zs. n = zs @ ext)"
proof
  assume "ends_with ext n"
  then have "n = take (length n - length ext) n @ ext"
    by (metis append_take_drop_id ends_with_def)
  then show "\<exists>zs. n = zs @ ext" ..
next
  assume "\<exists>zs. n = zs @ ext"
  then show "ends_with ext n"
    by (auto simp: ends_with_def)
qed

lemma ends_with_Cons: "ends_with ext (c # cs) = (ext = c # cs \<or> ends_with ext cs)"
  unfolding ends_with_iff by (auto simp: Cons_eq_append_conv)

lemma ends_with_Nil: "ends_with ext [] = (ext = [])"
  by (auto simp: ends_with_def)

lemma special_chars:
  "CHR ''*'' \<in> set ''*?[/''" "CHR ''?'' \<in> set ''*?[/''"
  "CHR ''['' \<in> set ''*?[/''" "CHR ''/'' \<in> set ''*?[/''"
  by simp_all

lemma plain_no_star: "plain ext \<Longrightarrow> CHR ''*'' \<notin> set ext"
  unfolding plain_def list_all_iff using special_chars(1) by blast

lemma plain_no_question: "plain ext \<Longrightarrow> CHR ''?'' \<notin> set ext"
  unfolding plain_def list_all_iff using special_chars(2) by blast

lemma plain_no_bracket: "plain ext \<Longrightarrow> CHR ''['' \<notin> set ext \<and> CHR ''/'' \<notin> set ext"
  unfolding plain_def list_all_iff using special_chars(3,4) by blast

lemma plain_tail: "plain (p # ps) \<Longrightarrow> plain ps"
  by (simp add: plain_def ascii_def)

lemma wild_match_plain: "plain ps \<Longrightarrow> wild_match ps s = (s = ps)"
proof (induction ps arbitrary: s)
  case Nil
  then show ?case by simp
next
  case (Cons p ps)
  have p: "p \<noteq> CHR ''*''"
    using plain_no_star [OF Cons.prems] by auto
  have ih: "wild_match ps t = (t = ps)" for t
    using Cons.IH [OF plain_tail [OF Cons.prems]] .
  show ?case
  proof (cases s)
    case Nil
    then show ?thesis using p by simp
  next
    case (Cons c cs)
    then show ?thesis using p ih by auto
  qed
qed

lemma wild_star_plain: "plain ext \<Longrightarrow> wild_match (CHR ''*'' # ext) n = ends_with ext n"
proof (induction n)
  case Nil
  then show ?case
    by (simp add: ends_with_Nil wild_match_plain eq_commute)
next
  case (Cons c cs)
  then show ?case
    by (simp add: ends_with_Cons wild_match_plain eq_commute)
qed

lemma double_star_plain: "CHR ''*'' \<notin> set s \<Longrightarrow> \<not> double_star (c # s)"
proof (induction s arbitrary: c)
  case Nil
  show ?case by simp
next
  case (Cons a s)
  then have "a \<noteq> CHR ''*''" and "\<not> double_star (a # s)"
    by auto
  then show ?case by simp
qed

lemma not_special_plain: "plain ext \<Longrightarrow> \<not> special (CHR ''*'' # ext)"
  using plain_no_star [of ext] plain_no_bracket [of ext] plain_no_question [of ext]
    double_star_plain [of ext "CHR ''*''"]
  by (simp add: special_def)

lemma upper_letter_plain:
  assumes "65 \<le> n" and "n \<le> (90::nat)"
  shows "(char_of n :: char) \<notin> set ''*?[/''"
proof -
  have k: "(of_char (char_of n :: char) :: nat) = n"
    using assms by (simp add: of_char_of)
  have "(char_of n :: char) \<noteq> d" if "(of_char d :: nat) < 65 \<or> 90 < (of_char d :: nat)" for d
  proof
    assume "char_of n = d"
    then have "(of_char d :: nat) = n"
      using k by simp
    with that assms show False
      by simp
  qed
  from this [of "CHR ''*''"] this [of "CHR ''?''"] this [of "CHR ''[''"] this [of "CHR ''/''"]
  show ?thesis
    by simp
qed

lemma to_upper_plain: "c \<notin> set ''*?[/'' \<Longrightarrow> to_upper c \<notin> set ''*?[/''"
proof (cases "97 \<le> (of_char c :: nat) \<and> (of_char c :: nat) \<le> 122")
  case False
  assume "c \<notin> set ''*?[/''"
  moreover have "to_upper c = c"
    using False by (auto simp: to_upper_def Let_def)
  ultimately show ?thesis
    by simp
next
  case True
  then have "to_upper c = char_of ((of_char c :: nat) - 32)"
    by (simp add: to_upper_def Let_def)
  moreover have "65 \<le> (of_char c :: nat) - 32" and "(of_char c :: nat) - 32 \<le> 90"
    using True by arith+
  ultimately show ?thesis
    using upper_letter_plain by simp
qed

lemma to_upper_ascii: "(of_char c :: nat) < 128 \<Longrightarrow> (of_char (to_upper c) :: nat) < 128"
  by (auto simp: to_upper_def Let_def of_char_of)

lemma upper_plain: "plain ext \<Longrightarrow> upper e ext = map to_upper ext"
  by (simp add: upper_def plain_def)

lemma plain_upper: "plain ext \<Longrightarrow> plain (upper e ext)"
  unfolding upper_plain unfolding plain_def ascii_def list_all_iff
  using to_upper_plain to_upper_ascii by auto


lemma glob_plain:
  assumes "plain ext" and "scandir e folder = Inr names"
  shows "glob e folder (CHR ''*'' # ext) =
           Inr (map (child folder) (filter (ends_with ext) names))"
proof -
  have "wild_match (CHR ''*'' # ext) = ends_with ext"
    by (rule HOL.ext) (simp add: wild_star_plain [OF assms(1)])
  then show ?thesis
    using assms(2) not_special_plain [OF assms(1)] by (simp add: glob_def)
qed

lemma glob_all_plain:
  assumes "list_all plain exts" and "scandir e folder = Inr names"
  shows "glob_all e folder exts =
           Inr (concat (map (\<lambda>ext. map (child folder) (filter (ends_with ext) names) @
                                    map (child folder) (filter (ends_with (upper e ext)) names))
                            exts))"
  using assms(1)
proof (induction exts)
  case Nil
  then show ?case by simp
next
  case (Cons ext exts)
  then have "plain ext" and "plain (upper e ext)" and "list_all plain exts"
    by (simp_all add: plain_upper)
  then show ?case
    using Cons.IH assms(2) by (simp add: glob_plain)
qed

text \<open>
  Claim C8, amended. For plain extensions (ASCII text with no star, question mark,
  opening bracket or slash) and a folder that can be listed, the discovered files are
  exactly the entries of the folder whose name ends with a listed extension as it is
  written or with its upper-case form; each appears once, however many of these patterns
  it matches, and the list is sorted.
\<close>

theorem discover_matches:
  assumes "list_all plain exts" and "scandir e folder = Inr names"
  shows "\<exists>fs. discover e folder exts = Inr fs
           \<and> set fs = {child folder n | n. n \<in> set names \<and>
                 (\<exists>ext \<in> set exts. ends_with ext n \<or> ends_with (upper e ext) n)}
           \<and> distinct fs
           \<and> sorted fs"
  using glob_all_plain [OF assms] by (auto simp: discover_def)


theorem discover_matches_witness:
  "discover (sample_env [''b.MP4'', ''a.mp4'', ''c.Mp4'', ''notes.txt''] TimeoutExpired) videos
      [''.MP4'', ''.mp4''] = Inr [child videos ''a.mp4'', child videos ''b.MP4'']
   \<and> distinct [child videos ''a.mp4'', child videos ''b.MP4'']
   \<and> sorted [child videos ''a.mp4'', child videos ''b.MP4'']"
proof -
  let ?e = "sample_env [''b.MP4'', ''a.mp4'', ''c.Mp4'', ''notes.txt''] TimeoutExpired"
  have v: "discover ?e videos [''.MP4'', ''.mp4''] =
      Inr [child videos ''a.mp4'', child videos ''b.MP4'']"
    by code_simp
  have pl: "list_all plain [''.MP4'', ''.mp4'']"
    by code_simp
  have sc: "scandir ?e videos = Inr [''b.MP4'', ''a.mp4'', ''c.Mp4'', ''notes.txt'']"
    by (simp add: sample_env_def)
  from discover_matches [OF pl sc] v show ?thesis
    by auto
qed

text \<open>
  Claim C8, as stated, fails. The name \<^verbatim>\<open>c.Mp4\<close> ends with a casing variant of the listed
  extension \<^verbatim>\<open>.mp4\<close>, yet the file is not discovered. And an extension is read as a
  pattern: with \<^verbatim>\<open>.m*\<close> the file \<^verbatim>\<open>b.mkv\<close> is discovered, whose name ends with no casing
  variant of that extension.
\<close>

theorem mixed_case_counterexample:
  "ends_with (upper (sample_env [''c.Mp4''] TimeoutExpired) ''.mp4'')
     (upper (sample_env [''c.Mp4''] TimeoutExpired) ''c.Mp4'')
   \<and> discover (sample_env [''c.Mp4''] TimeoutExpired) videos default_extensions = Inr []
   \<and> \<not> ends_with (upper (sample_env [''a.mp4'', ''b.mkv''] TimeoutExpired) ''.m*'')
        (upper (sample_env [''a.mp4'', ''b.mkv''] TimeoutExpired) ''b.mkv'')
   \<and> discover (sample_env [''a.mp4'', ''b.mkv''] TimeoutExpired) videos [''.m*''] =
       Inr [child videos ''a.mp4'', child videos ''b.mkv'']"
  by code_simp















section \<open>Properties of the correction pass\<close>

lemma loop_output_dir [simp]:
  "output_dir (correction_loop e mode v rs rep) = output_dir rep"
  by (induction rs arbitrary: rep) (simp_all add: Let_def)

lemma loop_inputs:
  "map inv_input (invocations (correction_loop e mode v rs rep)) =
     map inv_input (invocations rep) @ map chemin rs"
  by (induction rs arbitrary: rep) (simp_all add: Let_def)

lemma loop_outputs:
  "map inv_output (invocations (correction_loop e mode v rs rep)) =
     map inv_output (invocations rep) @ map (\<lambda>m. joinpath (output_dir rep) (fichier m)) rs"
  by (induction rs arbitrary: rep) (simp_all add: Let_def)



lemma loop_counters:
  "success (correction_loop e mode v rs rep) + errors (correction_loop e mode v rs rep) =
     success rep + errors rep + length rs"
  by (induction rs arbitrary: rep) (simp_all add: Let_def)

lemma output_dir_name_finite:
  "(\<exists>n. output_dir_name mode v = Inr n) = (\<exists>x. v = Fin x)"
  by (cases v) (simp_all add: output_dir_name_def)

text \<open>
  Claim C9, amended. When no result is free of an error, \<^const>\<open>process_corrections\<close> returns
  at once and calls nothing. Otherwise the name of the output directory is computed,
  which succeeds exactly for a finite value, and the directory is created. If either
  step raises, the exception leaves the function before any call. If both succeed, the
  correcting command is called once for every result without an error, in order, on
  that result's file and into the output directory, and for no other result; the two
  counters add up to the number of results without an error.
\<close>

theorem corrections_one_per_measurement:
  "(valid_results results = [] \<longrightarrow>
      process_corrections e results folder mode v = Inr None)
   \<and> ((\<exists>n. output_dir_name mode v = Inr n) = (\<exists>x. v = Fin x))
   \<and> (valid_results results \<noteq> [] \<and> output_dir_name mode v = Inl err \<longrightarrow>
        process_corrections e results folder mode v = Inl err)
   \<and> (valid_results results \<noteq> [] \<and> output_dir_name mode v = Inr n
        \<and> mkdir e (joinpath folder n) = Some err \<longrightarrow>
        process_corrections e results folder mode v = Inl err)
   \<and> (valid_results results \<noteq> [] \<and> output_dir_name mode v = Inr n
        \<and> mkdir e (joinpath folder n) = None \<longrightarrow>
        (\<exists>rep. process_corrections e results folder mode v = Inr (Some rep)
           \<and> output_dir rep = joinpath folder n
           \<and> length (invocations rep) = length (valid_results results)
           \<and> map inv_input (invocations rep) = map chemin (valid_results results)
           \<and> map inv_output (invocations rep) =
               map (\<lambda>m. joinpath (joinpath folder n) (fichier m)) (valid_results results)
           \<and> success rep + errors rep = length (valid_results results)))"
proof (intro conjI impI)
  show "(\<exists>n. output_dir_name mode v = Inr n) = (\<exists>x. v = Fin x)"
    by (rule output_dir_name_finite)
next
  assume "valid_results results = []"
  then show "process_corrections e results folder mode v = Inr None"
    by (simp add: process_corrections_def)
next
  assume "valid_results results \<noteq> [] \<and> output_dir_name mode v = Inl err"
  then show "process_corrections e results folder mode v = Inl err"
    by (simp add: process_corrections_def)
next
  assume "valid_results results \<noteq> [] \<and> output_dir_name mode v = Inr n
        \<and> mkdir e (joinpath folder n) = Some err"
  then show "process_corrections e results folder mode v = Inl err"
    by (simp add: process_corrections_def Let_def)
next
  assume a: "valid_results results \<noteq> [] \<and> output_dir_name mode v = Inr n
        \<and> mkdir e (joinpath folder n) = None"
  let ?rep = "correction_loop e mode v (valid_results results)
      \<lparr>output_dir = joinpath folder n, invocations = [], success = 0, errors = 0\<rparr>"
  have p: "process_corrections e results folder mode v = Inr (Some ?rep)"
    using a by (simp add: process_corrections_def Let_def)
  have i: "map inv_input (invocations ?rep) = map chemin (valid_results results)"
    by (simp add: loop_inputs)
  have l: "length (invocations ?rep) = length (valid_results results)"
    using arg_cong [OF i, of length] by simp
  have out: "map inv_output (invocations ?rep) =
      map (\<lambda>m. joinpath (joinpath folder n) (fichier m)) (valid_results results)"
    by (simp add: loop_outputs)
  have c: "success ?rep + errors ?rep = length (valid_results results)"
    by (simp add: loop_counters)
  have d: "output_dir ?rep = joinpath folder n"
    by simp
  from p i l out c d
  show "\<exists>rep. process_corrections e results folder mode v = Inr (Some rep)
           \<and> output_dir rep = joinpath folder n
           \<and> length (invocations rep) = length (valid_results results)
           \<and> map inv_input (invocations rep) = map chemin (valid_results results)
           \<and> map inv_output (invocations rep) =
               map (\<lambda>m. joinpath (joinpath folder n) (fichier m)) (valid_results results)
           \<and> success rep + errors rep = length (valid_results results)"
    by blast
qed

lemma sample_valid:
  "valid_results sample_results =
     [sample_measurement ''a.mp4'' (Fin (- 30)), sample_measurement ''c.mp4'' (Fin (- 20))]"
  by (simp add: sample_results_def)

lemma sample_normalize:
  "process_corrections picky_env sample_results videos ''normalize'' (Fin (- 24)) =
   Inr (Some \<lparr>output_dir = child videos ''normalized_24dB'',
     invocations =
       [\<lparr>inv_input = child videos ''a.mp4'', inv_gain = Fin 6,
          inv_output = child (child videos ''normalized_24dB'') ''a.mp4''\<rparr>,
        \<lparr>inv_input = child videos ''c.mp4'', inv_gain = Fin (- 4),
          inv_output = child (child videos ''normalized_24dB'') ''c.mp4''\<rparr>],
     success = 1, errors = 1\<rparr>)"
  by code_simp


theorem corrections_one_per_measurement_witness:
  "process_corrections picky_env sample_results videos ''normalize'' (Fin (- 24)) =
   Inr (Some \<lparr>output_dir = child videos ''normalized_24dB'',
     invocations =
       [\<lparr>inv_input = child videos ''a.mp4'', inv_gain = Fin 6,
          inv_output = child (child videos ''normalized_24dB'') ''a.mp4''\<rparr>,
        \<lparr>inv_input = child videos ''c.mp4'', inv_gain = Fin (- 4),
          inv_output = child (child videos ''normalized_24dB'') ''c.mp4''\<rparr>],
     success = 1, errors = 1\<rparr>)
   \<and> length (valid_results sample_results) = 2
   \<and> length sample_results = 3
   \<and> process_corrections picky_env [FileError ''b.mp4'' ''Timeout''] videos ''normalize''
        (Fin (- 24)) = Inr None
   \<and> process_corrections picky_env sample_results videos ''boost'' PInf =
        Inl (OverflowError ''cannot convert float infinity to integer'')
   \<and> process_corrections (picky_env\<lparr>mkdir := \<lambda>p. Some permission_denied\<rparr>) sample_results
        videos ''normalize'' (Fin (- 24)) = Inl permission_denied"
proof -
  have n: "output_dir_name ''normalize'' (Fin (- 24)) = Inr ''normalized_24dB''"
    by code_simp
  have b: "output_dir_name ''boost'' PInf =
      Inl (OverflowError ''cannot convert float infinity to integer'')"
    by code_simp
  have j: "joinpath videos ''normalized_24dB'' = child videos ''normalized_24dB''"
    by code_simp
  have m: "mkdir picky_env p = None"
    "mkdir (picky_env\<lparr>mkdir := \<lambda>p. Some permission_denied\<rparr>) p = Some permission_denied" for p
    by (simp_all add: picky_env_def sample_env_def)
  have ne: "valid_results sample_results \<noteq> []" "valid_results [FileError ''b.mp4'' ''Timeout''] = []"
    by (simp_all add: sample_valid)
  from corrections_one_per_measurement [where e = picky_env and results = sample_results
      and folder = videos and mode = "''normalize''" and v = "Fin (- 24)"
      and n = "''normalized_24dB''"]
    corrections_one_per_measurement [where e = picky_env
      and results = "[FileError ''b.mp4'' ''Timeout'']"
      and folder = videos and mode = "''normalize''" and v = "Fin (- 24)"]
    corrections_one_per_measurement [where e = picky_env and results = sample_results
      and folder = videos and mode = "''boost''" and v = PInf
      and err = "OverflowError ''cannot convert float infinity to integer''"]
    corrections_one_per_measurement [where e = "picky_env\<lparr>mkdir := \<lambda>p. Some permission_denied\<rparr>"
      and results = sample_results
      and folder = videos and mode = "''normalize''" and v = "Fin (- 24)"
      and n = "''normalized_24dB''" and err = permission_denied]
    arg_cong [OF sample_results_def, of length]
  show ?thesis
    by (simp add: sample_normalize sample_valid n b m ne)
qed

text \<open>
  Claim C9, as stated, fails: with two results free of an error, the value not-a-number
  (as \<^verbatim>\<open>--boost nan\<close> gives it) makes \<^verbatim>\<open>int\<close> raise, and a directory that cannot be created
  makes \<^verbatim>\<open>mkdir\<close> raise; in both runs the function is left before the first call.
\<close>

theorem nonfinite_value_counterexample:
  "length (valid_results sample_results) = 2
   \<and> process_corrections picky_env sample_results videos ''boost'' NaN =
        Inl (ValueError ''cannot convert float NaN to integer'')
   \<and> process_corrections (picky_env\<lparr>mkdir := \<lambda>p. Some permission_denied\<rparr>) sample_results
        videos ''normalize'' (Fin (- 24)) = Inl permission_denied"
  by code_simp






section \<open>Properties of the command line\<close>

lemma main_exit_normalize:
  "parse_flag float_of ''--normalize'' argv = Inl u \<Longrightarrow> main float_of e argv = ([], SysExit 1)"
  by (simp add: main_def)

lemma main_exit_boost:
  "parse_flag float_of ''--boost'' argv = Inl u \<Longrightarrow> main float_of e argv = ([], SysExit 1)"
  by (simp add: main_def split: sum.splits)

lemma parse_flag_invalid:
  "flag \<in> set argv \<Longrightarrow> index_of flag argv + 1 < length argv \<Longrightarrow>
   float_of (argv ! (index_of flag argv + 1)) = None \<Longrightarrow>
   parse_flag float_of flag argv = Inl ()"
  by (simp add: parse_flag_def Let_def)

lemma parse_flag_missing:
  "index_of flag argv + 1 = length argv \<Longrightarrow> parse_flag float_of flag argv = Inr None"
  by (simp add: parse_flag_def Let_def)

text \<open>
  Claim C7, amended. Only the first occurrence of \<^verbatim>\<open>--normalize\<close> and of \<^verbatim>\<open>--boost\<close> on the
  command line is read. When the token after it is one that \<^verbatim>\<open>float\<close> rejects, the
  program exits with status 1 before it analyses or corrects anything. When it is the
  last token of the command line, so that its value is missing, the flag is ignored: the
  run continues as if that correction had not been asked for.
\<close>

theorem invalid_option_exits:
  "((flag = ''--normalize'' \<or> flag = ''--boost'') \<and> flag \<in> set argv
     \<and> index_of flag argv + 1 < length argv
     \<and> float_of (argv ! (index_of flag argv + 1)) = None
     \<longrightarrow> main float_of e argv = ([], SysExit 1))
   \<and> (2 \<le> length argv \<and> index_of ''--normalize'' argv + 1 = length argv \<longrightarrow>
        main float_of e argv =
          (case parse_flag float_of ''--boost'' argv of
             Inl u \<Rightarrow> ([], SysExit 1)
           | Inr b \<Rightarrow> main_body e argv (argv ! 1) None b))
   \<and> (2 \<le> length argv \<and> index_of ''--boost'' argv + 1 = length argv \<longrightarrow>
        main float_of e argv =
          (case parse_flag float_of ''--normalize'' argv of
             Inl u \<Rightarrow> ([], SysExit 1)
           | Inr n \<Rightarrow> main_body e argv (argv ! 1) n None))"
proof -
  have a: "(flag = ''--normalize'' \<or> flag = ''--boost'') \<and> flag \<in> set argv
     \<and> index_of flag argv + 1 < length argv
     \<and> float_of (argv ! (index_of flag argv + 1)) = None
     \<longrightarrow> main float_of e argv = ([], SysExit 1)"
    using main_exit_normalize [of float_of argv "()" e] main_exit_boost [of float_of argv "()" e]
      parse_flag_invalid [of flag argv float_of]
    by blast
  have b: "2 \<le> length argv \<and> index_of ''--normalize'' argv + 1 = length argv \<longrightarrow>
        main float_of e argv =
          (case parse_flag float_of ''--boost'' argv of
             Inl u \<Rightarrow> ([], SysExit 1)
           | Inr b \<Rightarrow> main_body e argv (argv ! 1) None b)"
    by (simp add: main_def parse_flag_missing)
  have c: "2 \<le> length argv \<and> index_of ''--boost'' argv + 1 = length argv \<longrightarrow>
        main float_of e argv =
          (case parse_flag float_of ''--normalize'' argv of
             Inl u \<Rightarrow> ([], SysExit 1)
           | Inr n \<Rightarrow> main_body e argv (argv ! 1) n None)"
    by (simp add: main_def parse_flag_missing split: sum.splits)
  from a b c show ?thesis
    by blast
qed

lemma folder_run:
  "analyze_folder (sample_env [''a.mp4''] (Completed 0 two_markers)) ''videos'' None 4 =
     Inr [Measured (measured_30 ''a.mp4'')]"
  by code_simp

theorem invalid_option_exits_witness:
  "main float_of_group (sample_env [''a.mp4''] (Completed 0 two_markers))
     [''prog'', ''videos'', ''--csv'', ''--boost'', ''loud''] = ([], SysExit 1)
   \<and> main float_of_group (sample_env [''a.mp4''] (Completed 0 two_markers))
     [''prog'', ''videos'', ''--no-html'', ''--boost''] =
     ([Analyzed_folder ''videos'' [Measured (measured_30 ''a.mp4'')]], Returned)"
proof -
  let ?e = "sample_env [''a.mp4''] (Completed 0 two_markers)"
  have i: "index_of ''--boost'' [''prog'', ''videos'', ''--csv'', ''--boost'', ''loud''] = 3"
    "index_of ''--boost'' [''prog'', ''videos'', ''--no-html'', ''--boost''] = 3"
    by code_simp+
  have f: "float_of_group ''loud'' = None"
    by code_simp
  have n: "parse_flag float_of_group ''--normalize''
      [''prog'', ''videos'', ''--no-html'', ''--boost''] = Inr None"
    by code_simp
  have b: "main_body ?e [''prog'', ''videos'', ''--no-html'', ''--boost''] ''videos'' None None =
      ([Analyzed_folder ''videos'' [Measured (measured_30 ''a.mp4'')]], Returned)"
    by code_simp
  from invalid_option_exits [of "''--boost''"
      "[''prog'', ''videos'', ''--csv'', ''--boost'', ''loud'']" float_of_group ?e]
    invalid_option_exits [of "''--boost''"
      "[''prog'', ''videos'', ''--no-html'', ''--boost'']" float_of_group ?e]
  show ?thesis
    by (simp add: i f n b)
qed

text \<open>
  Claim C7, as stated, fails. With \<^verbatim>\<open>--normalize\<close> as the last token the program does not
  exit; it analyses the folder, writes the report and returns, without any correction.
  And with a second \<^verbatim>\<open>--normalize\<close> followed by a token that \<^verbatim>\<open>float\<close> rejects, the
  program does not exit either: it reads the first occurrence, analyses the file and
  corrects it.
\<close>

theorem missing_value_counterexample:
  "main float_of_group (sample_env [''a.mp4''] (Completed 0 two_markers))
     [''prog'', ''videos'', ''--normalize''] =
   ([Analyzed_folder ''videos'' [Measured (measured_30 ''a.mp4'')],
     Html_report (child videos ''audio_report.html'')],
    Returned)
   \<and> main float_of_group (sample_env [''a.mp4''] (Completed 0 two_markers))
     [''prog'', ''videos/a.mp4'', ''--normalize'', ''-24'', ''--normalize'', ''abc''] =
   ([Analyzed_file (child videos ''a.mp4'') (Measured (measured_30 ''a.mp4'')),
     Corrected_file
       \<lparr>inv_input = child videos ''a.mp4'', inv_gain = Fin 6,
          inv_output = child videos ''a_normalized.mp4''\<rparr> True],
    Returned)
   \<and> float_of_group ''abc'' = None"
  by code_simp

lemma correct_single_normalize:
  "correct_single e p m (Some t) boost_value =
     [Corrected_file
        \<lparr>inv_input = p, inv_gain = fsub t (niveau_moyen_db m),
           inv_output = joinpath (parent p) (stem p @ ''_normalized'' @ suffix_of p)\<rparr>
        (apply_audio_correction e p (fsub t (niveau_moyen_db m))
           (joinpath (parent p) (stem p @ ''_normalized'' @ suffix_of p)))]"
  by (simp add: correct_single_def Let_def)

lemma correct_folder_normalize:
  "correct_folder e results p (Some t) boost_value =
     (case process_corrections e results p ''normalize'' t of
        Inl err \<Rightarrow> ([], Uncaught err)
      | Inr rep \<Rightarrow> ([Corrections ''normalize'' t rep], Returned))"
  by (simp add: correct_folder_def run_corrections_def)

lemma main_body_normalize:
  "main_body e argv target (Some t) boost_value = main_body e argv target (Some t) None"
  by (simp add: main_body_def Let_def correct_single_normalize correct_folder_normalize
        cong: result.case_cong sum.case_cong if_cong prod.case_cong option.case_cong bool.case_cong)

lemma main_parsed:
  "2 \<le> length argv \<Longrightarrow> parse_flag float_of ''--normalize'' argv = Inr n \<Longrightarrow>
   parse_flag float_of ''--boost'' argv = Inr b \<Longrightarrow>
   main float_of e argv = main_body e argv (argv ! 1) n b"
  by (simp add: main_def)

lemma main_body_file:
  "is_file e (Path_of target) = Inr True \<Longrightarrow>
   main_body e argv target (Some t) boost_value =
     (case analyze_audio_level e (Path_of target) of
        Inl err \<Rightarrow> ([], Uncaught err)
      | Inr (Measured m) \<Rightarrow>
          ([Analyzed_file (Path_of target) (Measured m),
            Corrected_file
              \<lparr>inv_input = Path_of target, inv_gain = fsub t (niveau_moyen_db m),
                 inv_output = joinpath (parent (Path_of target))
                   (stem (Path_of target) @ ''_normalized'' @ suffix_of (Path_of target))\<rparr>
              (apply_audio_correction e (Path_of target) (fsub t (niveau_moyen_db m))
                 (joinpath (parent (Path_of target))
                   (stem (Path_of target) @ ''_normalized'' @ suffix_of (Path_of target))))],
           Returned)
      | Inr r \<Rightarrow> ([Analyzed_file (Path_of target) r], Returned))"
  by (simp add: main_body_def Let_def correct_single_normalize split: sum.splits result.splits)

lemma main_body_folder:
  "is_file e (Path_of target) = Inr False \<Longrightarrow> is_dir e (Path_of target) = Inr True \<Longrightarrow>
   main_body e argv target (Some t) boost_value =
     (case analyze_folder e target None 4 of
        Inl err \<Rightarrow> ([], Uncaught err)
      | Inr results \<Rightarrow>
         (case write_reports e argv (Path_of target) results of
            (evs, Some err) \<Rightarrow> (Analyzed_folder target results # evs, Uncaught err)
          | (evs, None) \<Rightarrow>
             (case process_corrections e results (Path_of target) ''normalize'' t of
                Inl err \<Rightarrow> (Analyzed_folder target results # evs, Uncaught err)
              | Inr rep \<Rightarrow>
                  (Analyzed_folder target results # evs @ [Corrections ''normalize'' t rep],
                   Returned))))"
  by (simp add: main_body_def Let_def correct_folder_normalize
      split: sum.splits prod.splits option.splits)


text \<open>
  Claim C10. When both \<^verbatim>\<open>--normalize\<close> and \<^verbatim>\<open>--boost\<close> are given with values that
  \<^verbatim>\<open>float\<close> accepts, the run is the run without the boost value. For a single file that
  is measured, the run is the analysis followed by one correction, with the gain target
  minus mean level, written to the \<^verbatim>\<open>_normalized\<close> output. For a folder, the run is the
  analysis and the reports followed by one correction pass, in the mode \<^verbatim>\<open>normalize\<close>
  with the target (unless the analysis, a report or the pass raises). No correction with
  the boost value is made in either path.
\<close>

theorem normalize_precedence:
  assumes "2 \<le> length argv"
    and "parse_flag float_of ''--normalize'' argv = Inr (Some t)"
    and "parse_flag float_of ''--boost'' argv = Inr (Some b)"
    and "p = Path_of (argv ! 1)"
  shows "main float_of e argv = main_body e argv (argv ! 1) (Some t) None
       \<and> (is_file e p = Inr True \<longrightarrow>
            main float_of e argv =
              (case analyze_audio_level e p of
                 Inl err \<Rightarrow> ([], Uncaught err)
               | Inr (Measured m) \<Rightarrow>
                   ([Analyzed_file p (Measured m),
                     Corrected_file
                       \<lparr>inv_input = p, inv_gain = fsub t (niveau_moyen_db m),
                          inv_output =
                            joinpath (parent p) (stem p @ ''_normalized'' @ suffix_of p)\<rparr>
                       (apply_audio_correction e p (fsub t (niveau_moyen_db m))
                          (joinpath (parent p) (stem p @ ''_normalized'' @ suffix_of p)))],
                    Returned)
               | Inr r \<Rightarrow> ([Analyzed_file p r], Returned)))
       \<and> (is_file e p = Inr False \<and> is_dir e p = Inr True \<longrightarrow>
            main float_of e argv =
              (case analyze_folder e (argv ! 1) None 4 of
                 Inl err \<Rightarrow> ([], Uncaught err)
               | Inr results \<Rightarrow>
                  (case write_reports e argv p results of
                     (evs, Some err) \<Rightarrow> (Analyzed_folder (argv ! 1) results # evs, Uncaught err)
                   | (evs, None) \<Rightarrow>
                      (case process_corrections e results p ''normalize'' t of
                         Inl err \<Rightarrow> (Analyzed_folder (argv ! 1) results # evs, Uncaught err)
                       | Inr rep \<Rightarrow>
                           (Analyzed_folder (argv ! 1) results # evs @
                              [Corrections ''normalize'' t rep],
                            Returned)))))"
proof -
  have m: "main float_of e argv = main_body e argv (argv ! 1) (Some t) (Some b)"
    using main_parsed [OF assms(1-3)] .
  show ?thesis
    unfolding m assms(4)
    using main_body_normalize [of e argv "argv ! 1" t "Some b"]
      main_body_file [of e "argv ! 1" argv t "Some b"]
      main_body_folder [of e "argv ! 1" argv t "Some b"]
    by simp
qed

theorem normalize_precedence_witness:
  "main float_of_group (sample_env [''a.mp4''] (Completed 0 two_markers))
     [''prog'', ''videos/a.mp4'', ''--boost'', ''10'', ''--normalize'', ''-24''] =
   ([Analyzed_file (child videos ''a.mp4'') (Measured (measured_30 ''a.mp4'')),
     Corrected_file
       \<lparr>inv_input = child videos ''a.mp4'', inv_gain = Fin 6,
          inv_output = child videos ''a_normalized.mp4''\<rparr> True],
    Returned)
   \<and> main float_of_group (sample_env [''a.mp4''] (Completed 0 two_markers))
     [''prog'', ''videos'', ''--boost'', ''10'', ''--normalize'', ''-24''] =
   ([Analyzed_folder ''videos'' [Measured (measured_30 ''a.mp4'')],
     Html_report (child videos ''audio_report.html''),
     Corrections ''normalize'' (Fin (- 24))
       (Some \<lparr>output_dir = child videos ''normalized_24dB'',
          invocations =
            [\<lparr>inv_input = child videos ''a.mp4'', inv_gain = Fin 6,
               inv_output = child (child videos ''normalized_24dB'') ''a.mp4''\<rparr>],
          success = 1, errors = 0\<rparr>)],
    Returned)"
proof -
  let ?e = "sample_env [''a.mp4''] (Completed 0 two_markers)"
  let ?file = "[''prog'', ''videos/a.mp4'', ''--boost'', ''10'', ''--normalize'', ''-24'']"
  let ?dir = "[''prog'', ''videos'', ''--boost'', ''10'', ''--normalize'', ''-24'']"
  have l: "2 \<le> length ?file" "2 \<le> length ?dir"
    by simp_all
  have n: "parse_flag float_of_group ''--normalize'' ?file = Inr (Some (Fin (- 24)))"
    "parse_flag float_of_group ''--normalize'' ?dir = Inr (Some (Fin (- 24)))"
    by code_simp+
  have b: "parse_flag float_of_group ''--boost'' ?file = Inr (Some (Fin 10))"
    "parse_flag float_of_group ''--boost'' ?dir = Inr (Some (Fin 10))"
    by code_simp+
  have p: "child videos ''a.mp4'' = Path_of (?file ! 1)" "videos = Path_of (?dir ! 1)"
    by code_simp+
  have f: "is_file ?e (child videos ''a.mp4'') = Inr True"
    "is_file ?e videos = Inr False \<and> is_dir ?e videos = Inr True"
    by (simp_all add: sample_env_def child_def videos_def)
  have v: "(case analyze_audio_level ?e (child videos ''a.mp4'') of
       Inl err \<Rightarrow> ([], Uncaught err)
     | Inr (Measured m) \<Rightarrow>
         ([Analyzed_file (child videos ''a.mp4'') (Measured m),
           Corrected_file
             \<lparr>inv_input = child videos ''a.mp4'',
                inv_gain = fsub (Fin (- 24)) (niveau_moyen_db m),
                inv_output = joinpath (parent (child videos ''a.mp4''))
                  (stem (child videos ''a.mp4'') @ ''_normalized'' @
                   suffix_of (child videos ''a.mp4''))\<rparr>
             (apply_audio_correction ?e (child videos ''a.mp4'')
                (fsub (Fin (- 24)) (niveau_moyen_db m))
                (joinpath (parent (child videos ''a.mp4''))
                  (stem (child videos ''a.mp4'') @ ''_normalized'' @
                   suffix_of (child videos ''a.mp4''))))],
          Returned)
     | Inr r \<Rightarrow> ([Analyzed_file (child videos ''a.mp4'') r], Returned)) =
   ([Analyzed_file (child videos ''a.mp4'') (Measured (measured_30 ''a.mp4'')),
     Corrected_file
       \<lparr>inv_input = child videos ''a.mp4'', inv_gain = Fin 6,
          inv_output = child videos ''a_normalized.mp4''\<rparr> True],
    Returned)"
    by code_simp
  have w: "(case analyze_folder ?e (?dir ! 1) None 4 of
       Inl err \<Rightarrow> ([], Uncaught err)
     | Inr results \<Rightarrow>
        (case write_reports ?e ?dir videos results of
           (evs, Some err) \<Rightarrow> (Analyzed_folder (?dir ! 1) results # evs, Uncaught err)
         | (evs, None) \<Rightarrow>
            (case process_corrections ?e results videos ''normalize'' (Fin (- 24)) of
               Inl err \<Rightarrow> (Analyzed_folder (?dir ! 1) results # evs, Uncaught err)
             | Inr rep \<Rightarrow>
                 (Analyzed_folder (?dir ! 1) results # evs @
                    [Corrections ''normalize'' (Fin (- 24)) rep],
                  Returned)))) =
   ([Analyzed_folder ''videos'' [Measured (measured_30 ''a.mp4'')],
     Html_report (child videos ''audio_report.html''),
     Corrections ''normalize'' (Fin (- 24))
       (Some \<lparr>output_dir = child videos ''normalized_24dB'',
          invocations =
            [\<lparr>inv_input = child videos ''a.mp4'', inv_gain = Fin 6,
               inv_output = child (child videos ''normalized_24dB'') ''a.mp4''\<rparr>],
          success = 1, errors = 0\<rparr>)],
    Returned)"
    by code_simp
  note file_run = normalize_precedence [OF l(1) n(1) b(1) p(1), of ?e]
  note dir_run = normalize_precedence [OF l(2) n(2) b(2) p(2), of ?e]
  from file_run f(1) have "main float_of_group ?e ?file =
      (case analyze_audio_level ?e (child videos ''a.mp4'') of
       Inl err \<Rightarrow> ([], Uncaught err)
     | Inr (Measured m) \<Rightarrow>
         ([Analyzed_file (child videos ''a.mp4'') (Measured m),
           Corrected_file
             \<lparr>inv_input = child videos ''a.mp4'',
                inv_gain = fsub (Fin (- 24)) (niveau_moyen_db m),
                inv_output = joinpath (parent (child videos ''a.mp4''))
                  (stem (child videos ''a.mp4'') @ ''_normalized'' @
                   suffix_of (child videos ''a.mp4''))\<rparr>
             (apply_audio_correction ?e (child videos ''a.mp4'')
                (fsub (Fin (- 24)) (niveau_moyen_db m))
                (joinpath (parent (child videos ''a.mp4''))
                  (stem (child videos ''a.mp4'') @ ''_normalized'' @
                   suffix_of (child videos ''a.mp4''))))],
          Returned)
     | Inr r \<Rightarrow> ([Analyzed_file (child videos ''a.mp4'') r], Returned))"
    by blast
  moreover from dir_run f(2) have "main float_of_group ?e ?dir =
      (case analyze_folder ?e (?dir ! 1) None 4 of
       Inl err \<Rightarrow> ([], Uncaught err)
     | Inr results \<Rightarrow>
        (case write_reports ?e ?dir videos results of
           (evs, Some err) \<Rightarrow> (Analyzed_folder (?dir ! 1) results # evs, Uncaught err)
         | (evs, None) \<Rightarrow>
            (case process_corrections ?e results videos ''normalize'' (Fin (- 24)) of
               Inl err \<Rightarrow> (Analyzed_folder (?dir ! 1) results # evs, Uncaught err)
             | Inr rep \<Rightarrow>
                 (Analyzed_folder (?dir ! 1) results # evs @
                    [Corrections ''normalize'' (Fin (- 24)) rep],
                  Returned))))"
    by blast
  ultimately show ?thesis
    unfolding v w by (rule conjI)
qed

end
